theory Spec2Isabelle
  imports Complex_Main "HOL-Library.Product_Lexorder"
begin

section \<open>Frontend types and constants (frontend/src/types/index.ts)\<close>

text \<open>
  The TypeScript enums are string enums; at run time a status is the string the server
  sent, so a status is modelled as a \<open>string\<close> and each enum as the list of its values.
\<close>

definition JobStatus :: "string list" where
  "JobStatus = [''pending'', ''processing'', ''completed'', ''failed'']"

datatype VideoSource = UPLOAD | YOUTUBE

datatype SubscriptionTier = FREE | PREMIUM | LIFETIME

record User =
  user_id :: string
  email :: string
  subscription_tier :: SubscriptionTier
  clips_used_today :: nat

text \<open>A browser \<open>File\<close>: its name and its size in bytes.\<close>

record File =
  file_name :: string
  file_size :: nat

record VideoUploadResponse =
  video_id :: string
  job_id :: string

text \<open>
  \<open>JobStatusResponse\<close>: \<open>error_message\<close> is optional (\<open>error_message?: string\<close>);
  the untyped \<open>result\<close> object is left out.
\<close>

record JobStatusResponse =
  resp_job_id :: string
  status :: string
  progress :: int
  error_message :: "string option"

definition MAX_FILE_SIZE_FREE :: nat where
  "MAX_FILE_SIZE_FREE = 100 * 1024 * 1024"

definition MAX_FILE_SIZE_PREMIUM :: nat where
  "MAX_FILE_SIZE_PREMIUM = 1024 * 1024 * 1024"

section \<open>The API client and job polling (frontend/src/lib/api.ts)\<close>

text \<open>
  A promise settles by resolving with a value or rejecting with an error. The backend is
  outside the frontend: the answers of its endpoints are parameters of the model.
  \<open>getJobStatus api j n\<close> is the outcome of the \<open>n\<close>-th call (from 0) of
  \<open>ApiClient.getJobStatus(j)\<close>.
\<close>

datatype 'a outcome = Resolved 'a | Rejected string

record api_env =
  uploadVideo :: "string \<Rightarrow> VideoSource \<Rightarrow> VideoUploadResponse outcome"
  uploadFile :: "string \<Rightarrow> File \<Rightarrow> unit outcome"
  getJobStatus :: "string \<Rightarrow> nat \<Rightarrow> JobStatusResponse outcome"

text \<open>What the upload widget does, in order: state updates, toasts, API calls.\<close>

datatype effect =
    SetIsUploading bool
  | SetUploadProgress rat
  | ToastFileTooLarge nat
  | ToastError string
  | ToastLoading string
  | ToastSuccess string
  | ApiUploadVideo string VideoSource
  | ApiUploadFile string File
  | ApiGetJobStatus string
  | OnVideoProcessed
  | ConsoleError string

fun is_api_call :: "effect \<Rightarrow> bool" where
  "is_api_call (ApiUploadVideo t s) = True"
| "is_api_call (ApiUploadFile v f) = True"
| "is_api_call (ApiGetJobStatus j) = True"
| "is_api_call e = False"

text \<open>
  \<open>pollJobStatus\<close> returns a promise and calls the inner \<open>poll\<close>. The promise is either
  settled, or \<open>poll\<close> is due to run again (the first call, or a \<open>setTimeout(poll, interval)\<close>).
  \<open>Scheduled n es\<close>: \<open>n\<close> polls have run, none of them settled the promise, the next one is
  due; \<open>es\<close> are the effects so far. The loop has no bound in the source, so the model
  counts the runs of \<open>poll\<close>: \<open>pollJobStatus g jobId onProgress k\<close> is the state after
  \<open>k\<close> runs. \<open>onProgress\<close> is given by its effects; the callbacks of the widget only
  set its state and do not throw.
\<close>

datatype poll_state =
    Scheduled nat "effect list"
  | Settled "JobStatusResponse outcome" "effect list"

definition is_final :: "JobStatusResponse \<Rightarrow> bool" where
  "is_final st = (status st = ''completed'' \<or> status st = ''failed'')"

fun poll :: "(nat \<Rightarrow> JobStatusResponse outcome) \<Rightarrow> string \<Rightarrow>
    (JobStatusResponse \<Rightarrow> effect list) \<Rightarrow> poll_state \<Rightarrow> poll_state" where
  "poll g jobId onProgress (Scheduled n es) =
     (case g n of
        Rejected err \<Rightarrow> Settled (Rejected err) (es @ [ApiGetJobStatus jobId])
      | Resolved st \<Rightarrow>
          if is_final st
          then Settled (Resolved st) (es @ [ApiGetJobStatus jobId] @ onProgress st)
          else Scheduled (Suc n) (es @ [ApiGetJobStatus jobId] @ onProgress st))"
| "poll g jobId onProgress (Settled r es) = Settled r es"

definition pollJobStatus :: "(nat \<Rightarrow> JobStatusResponse outcome) \<Rightarrow> string \<Rightarrow>
    (JobStatusResponse \<Rightarrow> effect list) \<Rightarrow> nat \<Rightarrow> poll_state" where
  "pollJobStatus g jobId onProgress k = (poll g jobId onProgress ^^ k) (Scheduled 0 [])"



section \<open>The upload widget (frontend/src/components/UploadArea.tsx)\<close>

definition catch_upload :: "effect list" where
  "catch_upload = [ConsoleError ''Upload error:'', ToastError ''Failed to upload video'']"

definition finally_upload :: "effect list" where
  "finally_upload = [SetIsUploading False, SetUploadProgress 0]"

text \<open>
  \<open>handleFileUpload\<close>, with the effects it has performed once \<open>poll\<close> has run at most
  \<open>k\<close> times. While the promise of \<open>pollJobStatus\<close> is pending nothing after the
  \<open>await\<close> runs.
\<close>

definition handleFileUpload :: "api_env \<Rightarrow> nat \<Rightarrow> File \<Rightarrow> effect list" where
  "handleFileUpload api k file =
     [SetIsUploading True, SetUploadProgress 10, ApiUploadVideo (file_name file) UPLOAD] @
     (case uploadVideo api (file_name file) UPLOAD of
        Rejected err \<Rightarrow> catch_upload @ finally_upload
      | Resolved uploadResponse \<Rightarrow>
          [SetUploadProgress 30, ApiUploadFile (video_id uploadResponse) file] @
          (case uploadFile api (video_id uploadResponse) file of
             Rejected err \<Rightarrow> catch_upload @ finally_upload
           | Resolved u \<Rightarrow>
               [SetUploadProgress 50, ToastLoading ''Processing video...''] @
               (case pollJobStatus (getJobStatus api (job_id uploadResponse))
                       (job_id uploadResponse)
                       (\<lambda>st. [SetUploadProgress (50 + of_int (progress st) * (1 / 2))]) k of
                  Scheduled n es \<Rightarrow> es
                | Settled (Rejected err) es \<Rightarrow> es @ catch_upload @ finally_upload
                | Settled (Resolved finalStatus) es \<Rightarrow>
                    es @
                    (if status finalStatus = ''completed''
                     then [ToastSuccess ''Video uploaded and processed successfully!'',
                           OnVideoProcessed]
                     else [ToastError ''Failed to process video'']) @
                    finally_upload)))"

text \<open>
  \<open>onDrop\<close>. The widget is given no user: \<open>user\<close> stands for the signed-in user of the
  surrounding \<open>AuthProvider\<close>, which the handler never reads. The toast of the rejected
  file shows \<open>formatFileSize(maxSize)\<close>; the model keeps \<open>maxSize\<close> itself.
\<close>

definition onDrop :: "User \<Rightarrow> api_env \<Rightarrow> nat \<Rightarrow> File list \<Rightarrow> effect list" where
  "onDrop user api k acceptedFiles =
     (case acceptedFiles of
        [] \<Rightarrow> []
      | file # rest \<Rightarrow>
          (let maxSize = MAX_FILE_SIZE_FREE in
           if file_size file > maxSize then [ToastFileTooLarge maxSize]
           else handleFileUpload api k file))"

section \<open>PostgreSQL values, errors and callers\<close>

text \<open>
  The two schema files are the persistence layer. A table is modelled by what it accepts:
  an \<open>INSERT\<close> or \<open>UPDATE\<close> either fails with an error or yields the new table.
  A column value is an \<open>option\<close>, \<open>None\<close> being SQL's \<open>NULL\<close>.
  Timestamps, \<open>JSONB\<close> columns and the \<open>updated_at\<close> trigger are left out, as are
  the text columns that carry no constraint (\<open>description\<close>, \<open>file_path\<close>,
  \<open>download_url\<close>, \<open>file_size\<close>). When a statement violates several rules PostgreSQL
  reports the one it meets first; the model fixes an order of its own, which no property below
  depends on.
\<close>

type_synonym uuid = string

datatype sql_error =
    NotNullViolation string
  | CheckViolation string
  | ForeignKeyViolation string
  | UniqueViolation string
  | StringTooLong string
  | IntegerOutOfRange string
  | NumericOverflow string
  | RlsViolation string

text \<open>
  Who runs a statement. The row level security policies compare \<open>auth.uid()\<close> with the
  owner of the row: \<open>AuthUser u\<close> is a signed-in user, \<open>Anon\<close> has no \<open>auth.uid()\<close>,
  and the service role (the key \<open>SUPABASE_SERVICE_KEY\<close> of scripts/deploy.sh) bypasses the
  policies.
\<close>

datatype caller = ServiceRole | AuthUser uuid | Anon

text \<open>
  A column in a statement: left out (\<open>INSERT\<close> takes the default, \<open>UPDATE\<close> keeps the
  stored value) or given, possibly as \<open>NULL\<close>.
\<close>

datatype 'a assigned = Omitted | Given "'a option"

fun assign :: "'a option \<Rightarrow> 'a assigned \<Rightarrow> 'a option" where
  "assign d Omitted = d"
| "assign d (Given v) = v"

text \<open>
  The error of the first rule that is violated, if any.
\<close>

definition first_violation :: "(bool \<times> sql_error) list \<Rightarrow> sql_error option" where
  "first_violation cs = map_option snd (find fst cs)"

definition fits_int4 :: "int option \<Rightarrow> bool" where
  "fits_int4 v = (case v of None \<Rightarrow> True | Some i \<Rightarrow> - 2147483648 \<le> i \<and> i \<le> 2147483647)"

text \<open>
  \<open>VARCHAR(n)\<close>: a longer string is cut to \<open>n\<close> characters when only spaces are cut off,
  and is an error otherwise.
\<close>

definition varchar :: "nat \<Rightarrow> string option \<Rightarrow> string option" where
  "varchar n v = map_option (\<lambda>s. if list_all (\<lambda>c. c = CHR '' '') (drop n s) then take n s else s) v"

definition fits_varchar :: "nat \<Rightarrow> string option \<Rightarrow> bool" where
  "fits_varchar n v = (case v of None \<Rightarrow> True | Some s \<Rightarrow> length s \<le> n)"




definition uid_is :: "caller \<Rightarrow> uuid option \<Rightarrow> bool" where
  "uid_is c owner = (case c of ServiceRole \<Rightarrow> True | Anon \<Rightarrow> False
                     | AuthUser u \<Rightarrow> owner = Some u)"

text \<open>
  A \<open>CHECK (col IN (...))\<close> constraint: it is violated only when the comparison is false,
  so \<open>NULL\<close> passes it.
\<close>

definition violates_in :: "string option \<Rightarrow> string list \<Rightarrow> bool" where
  "violates_in v allowed = (case v of None \<Rightarrow> False | Some s \<Rightarrow> s \<notin> set allowed)"

definition references :: "uuid option \<Rightarrow> uuid list \<Rightarrow> bool" where
  "references v ids = (case v of None \<Rightarrow> True | Some i \<Rightarrow> i \<in> set ids)"

section \<open>Job status values\<close>

text \<open>
  The first schema (the file that creates \<open>public.jobs\<close> with the enum type
  \<open>job_status\<close>), the shared types (\<open>export type JobStatus\<close>) and the frontend enum
  \<open>JobStatus\<close> above each list the status values of a Job.
\<close>

definition job_status :: "string list" where
  "job_status = [''pending'', ''processing'', ''completed'', ''failed'']"

definition shared_JobStatus :: "string list" where
  "shared_JobStatus = [''pending'', ''running'', ''completed'', ''failed'', ''cancelled'']"

section \<open>The jobs and clips tables (shared/schemas/database.sql)\<close>

text \<open>
  A row of \<open>jobs\<close> and of \<open>clips\<close>, without its primary key \<open>id\<close> (the key of the
  map that holds the table). \<open>clips.start_time\<close>, \<open>end_time\<close> and
  \<open>duration_seconds\<close> are in thousandths of a second, the two scores in hundredths.
\<close>

record jobs_row =
  jobs_user_id :: "uuid option"
  jobs_video_id :: "uuid option"
  jobs_job_type :: "string option"
  jobs_status :: "string option"
  jobs_priority :: "int option"
  jobs_progress :: "int option"
  jobs_eta_seconds :: "int option"
  jobs_error_message :: "string option"
  jobs_task_id :: "string option"
  jobs_retry_count :: "int option"
  jobs_max_retries :: "int option"

record jobs_stmt =
  set_user_id :: "uuid assigned"
  set_video_id :: "uuid assigned"
  set_job_type :: "string assigned"
  set_status :: "string assigned"
  set_priority :: "int assigned"
  set_progress :: "int assigned"
  set_eta_seconds :: "int assigned"
  set_error_message :: "string assigned"
  set_task_id :: "string assigned"
  set_retry_count :: "int assigned"
  set_max_retries :: "int assigned"

record clips_row =
  clips_video_id :: "uuid option"
  clips_script_id :: "uuid option"
  clips_template_id :: "uuid option"
  clips_user_id :: "uuid option"
  clips_title :: "string option"
  clips_start_time :: "int option"
  clips_end_time :: "int option"
  clips_duration_seconds :: "int option"
  clips_highlight_score :: "int option"
  clips_viral_potential_score :: "int option"
  clips_aspect_ratio :: "string option"
  clips_resolution :: "string option"
  clips_export_status :: "string option"
  clips_export_progress :: "int option"


text \<open>
  The tables: of \<open>users\<close>, \<open>videos\<close>, \<open>scripts\<close> and \<open>templates\<close> only the ids,
  which the foreign keys of \<open>jobs\<close> and \<open>clips\<close> refer to.
\<close>

record database =
  users :: "uuid list"
  videos :: "uuid list"
  scripts :: "uuid list"
  templates :: "uuid list"
  jobs :: "uuid \<rightharpoonup> jobs_row"
  clips :: "uuid \<rightharpoonup> clips_row"

text \<open>
  The \<open>DEFAULT\<close> of each column of \<open>jobs\<close> (\<open>NULL\<close> where none is declared), and the row
  a statement produces from the stored row (for an \<open>INSERT\<close>, from the defaults).
\<close>

definition jobs_defaults :: jobs_row where
  "jobs_defaults = \<lparr>jobs_user_id = None, jobs_video_id = None, jobs_job_type = None,
     jobs_status = Some ''pending'', jobs_priority = Some 0, jobs_progress = Some 0,
     jobs_eta_seconds = None, jobs_error_message = None, jobs_task_id = None,
     jobs_retry_count = Some 0, jobs_max_retries = Some 3\<rparr>"

definition jobs_assign :: "jobs_row \<Rightarrow> jobs_stmt \<Rightarrow> jobs_row" where
  "jobs_assign old s = \<lparr>
     jobs_user_id = assign (jobs_user_id old) (set_user_id s),
     jobs_video_id = assign (jobs_video_id old) (set_video_id s),
     jobs_job_type = varchar 50 (assign (jobs_job_type old) (set_job_type s)),
     jobs_status = varchar 20 (assign (jobs_status old) (set_status s)),
     jobs_priority = assign (jobs_priority old) (set_priority s),
     jobs_progress = assign (jobs_progress old) (set_progress s),
     jobs_eta_seconds = assign (jobs_eta_seconds old) (set_eta_seconds s),
     jobs_error_message = assign (jobs_error_message old) (set_error_message s),
     jobs_task_id = varchar 255 (assign (jobs_task_id old) (set_task_id s)),
     jobs_retry_count = assign (jobs_retry_count old) (set_retry_count s),
     jobs_max_retries = assign (jobs_max_retries old) (set_max_retries s)\<rparr>"

definition jobs_status_values :: "string list" where
  "jobs_status_values = [''pending'', ''running'', ''completed'', ''failed'', ''cancelled'']"

text \<open>
  The column types, \<open>job_type NOT NULL\<close>, the \<open>CHECK\<close> on \<open>status\<close> and the two
  foreign keys. \<open>progress\<close>, \<open>retry_count\<close>, \<open>max_retries\<close> and \<open>error_message\<close>
  carry no constraint beyond their type.
\<close>

definition jobs_violation :: "database \<Rightarrow> jobs_row \<Rightarrow> sql_error option" where
  "jobs_violation db r = first_violation [
     (\<not> fits_varchar 50 (jobs_job_type r), StringTooLong ''job_type''),
     (\<not> fits_varchar 20 (jobs_status r), StringTooLong ''status''),
     (\<not> fits_varchar 255 (jobs_task_id r), StringTooLong ''task_id''),
     (\<not> fits_int4 (jobs_priority r), IntegerOutOfRange ''priority''),
     (\<not> fits_int4 (jobs_progress r), IntegerOutOfRange ''progress''),
     (\<not> fits_int4 (jobs_eta_seconds r), IntegerOutOfRange ''eta_seconds''),
     (\<not> fits_int4 (jobs_retry_count r), IntegerOutOfRange ''retry_count''),
     (\<not> fits_int4 (jobs_max_retries r), IntegerOutOfRange ''max_retries''),
     (jobs_job_type r = None, NotNullViolation ''job_type''),
     (violates_in (jobs_status r) jobs_status_values, CheckViolation ''jobs_status_check''),
     (\<not> references (jobs_user_id r) (users db), ForeignKeyViolation ''jobs_user_id_fkey''),
     (\<not> references (jobs_video_id r) (videos db), ForeignKeyViolation ''jobs_video_id_fkey'')]"

text \<open>
  \<open>INSERT INTO jobs\<close> by caller \<open>c\<close>; \<open>new_id\<close> is the given or generated \<open>id\<close>.
  The policy \<open>FOR ALL USING (auth.uid() = user_id)\<close> is checked on the new row.
\<close>

definition insert_jobs :: "caller \<Rightarrow> database \<Rightarrow> uuid \<Rightarrow> jobs_stmt \<Rightarrow> sql_error + database" where
  "insert_jobs c db new_id s =
     (let r = jobs_assign jobs_defaults s in
      case jobs_violation db r of
        Some e \<Rightarrow> Inl e
      | None \<Rightarrow>
          if \<not> uid_is c (jobs_user_id r) then Inl (RlsViolation ''jobs'')
          else if new_id \<in> dom (jobs db) then Inl (UniqueViolation ''jobs_pkey'')
          else Inr (db\<lparr>jobs := (jobs db)(new_id \<mapsto> r)\<rparr>))"

text \<open>
  \<open>UPDATE jobs SET ... WHERE id = job\<close>. A row that does not exist or that the policy hides
  from the caller is not updated (no error); the new row must pass the constraints and the
  policy.
\<close>

definition update_jobs :: "caller \<Rightarrow> database \<Rightarrow> uuid \<Rightarrow> jobs_stmt \<Rightarrow> sql_error + database" where
  "update_jobs c db job s =
     (case jobs db job of
        None \<Rightarrow> Inr db
      | Some old \<Rightarrow>
          if \<not> uid_is c (jobs_user_id old) then Inr db
          else
            (let r = jobs_assign old s in
             case jobs_violation db r of
               Some e \<Rightarrow> Inl e
             | None \<Rightarrow>
                 if \<not> uid_is c (jobs_user_id r) then Inl (RlsViolation ''jobs'')
                 else Inr (db\<lparr>jobs := (jobs db)(job \<mapsto> r)\<rparr>)))"

text \<open>
  Every stored Job has a status of the \<open>CHECK\<close> list, or none.
\<close>

definition status_admitted :: "database \<Rightarrow> bool" where
  "status_admitted db = (\<forall>j r. jobs db j = Some r \<longrightarrow>
     jobs_status r = None \<or> jobs_status r \<in> Some ` set jobs_status_values)"

text \<open>
  The range the specification gives for a Job's progress.
\<close>

definition progress_in_range :: "int option \<Rightarrow> bool" where
  "progress_in_range p = (case p of None \<Rightarrow> False | Some v \<Rightarrow> 0 \<le> v \<and> v \<le> 100)"

text \<open>
  The row of Job \<open>j\<close> after a statement, if the statement succeeded.
\<close>

definition row_after :: "sql_error + database \<Rightarrow> uuid \<Rightarrow> jobs_row option" where
  "row_after res j = (case res of Inl e \<Rightarrow> None | Inr db \<Rightarrow> jobs db j)"

text \<open>
  The statement that assigns no column.
\<close>

definition no_change :: jobs_stmt where
  "no_change = \<lparr>set_user_id = Omitted, set_video_id = Omitted, set_job_type = Omitted,
     set_status = Omitted, set_priority = Omitted, set_progress = Omitted,
     set_eta_seconds = Omitted, set_error_message = Omitted, set_task_id = Omitted,
     set_retry_count = Omitted, set_max_retries = Omitted\<rparr>"









text \<open>
  A database with one user and one video, a Job of that user with every default, the
  statement that inserts it, and a Clip of that user from 12.3456 s to 47.8 s.
\<close>

definition example_db :: database where
  "example_db = \<lparr>users = [''u1''], videos = [''v1''], scripts = [], templates = [],
     jobs = Map.empty, clips = Map.empty\<rparr>"

definition example_job :: jobs_row where
  "example_job = jobs_defaults\<lparr>jobs_user_id := Some ''u1'',
     jobs_job_type := Some ''clip_export''\<rparr>"

definition example_stmt :: jobs_stmt where
  "example_stmt = no_change\<lparr>set_user_id := Given (Some ''u1''),
     set_job_type := Given (Some ''clip_export'')\<rparr>"



section \<open>The highlights table (first schema)\<close>













section \<open>The Highlight Scorer\<close>

text \<open>
  Modelled from the spec: the Highlight Scorer. \<open>detectHighlights\<close> runs in the backend
  workers, which are not among the sources; the frontend only posts to \<open>/highlight\<close>. The
  definitions of this section follow section 4.3 of the specification. A transcript is its
  ordered segments.
\<close>

record TranscriptSegment =
  seg_start :: rat
  seg_end :: rat
  seg_text :: string

















section \<open>Properties of the upload widget\<close>

text \<open>
  Claim C9. A dropped file larger than \<open>MAX_FILE_SIZE_FREE\<close> (100 MiB) is rejected in the
  browser: the only effect is the error toast, so no API call is made and no Video or Job
  is created. The limit is the free one for every user, whatever the subscription tier,
  although the premium limit of 1 GiB exists as a constant of its own.
\<close>

theorem onDrop_rejects_above_free_limit:
  assumes "file_size file > MAX_FILE_SIZE_FREE"
  shows "onDrop user api k (file # rest) = [ToastFileTooLarge (100 * 1024 * 1024)]
    \<and> \<not> list_ex is_api_call (onDrop user api k (file # rest))
    \<and> MAX_FILE_SIZE_FREE = 100 * 1024 * 1024
    \<and> MAX_FILE_SIZE_PREMIUM = 1024 * 1024 * 1024"
  using assms by (simp add: onDrop_def MAX_FILE_SIZE_FREE_def MAX_FILE_SIZE_PREMIUM_def)

text \<open>
  The theorem of claim C9 at a file of 200 MiB, below the premium limit, dropped by a user
  of the premium tier: it is rejected with the free limit.
\<close>

theorem onDrop_rejects_above_free_limit_witness:
  "file_size \<lparr>file_name = ''talk.mp4'', file_size = 200 * 1024 * 1024\<rparr> > MAX_FILE_SIZE_FREE
   \<and> file_size \<lparr>file_name = ''talk.mp4'', file_size = 200 * 1024 * 1024\<rparr> \<le> MAX_FILE_SIZE_PREMIUM
   \<and> onDrop \<lparr>user_id = ''u1'', email = ''a@b.c'', subscription_tier = PREMIUM,
              clips_used_today = 0\<rparr>
        \<lparr>uploadVideo = (\<lambda>t s. Resolved \<lparr>video_id = ''v1'', job_id = ''j1''\<rparr>),
         uploadFile = (\<lambda>v f. Resolved ()),
         getJobStatus = (\<lambda>j n. Rejected ''offline'')\<rparr>
        3 [\<lparr>file_name = ''talk.mp4'', file_size = 200 * 1024 * 1024\<rparr>]
      = [ToastFileTooLarge (100 * 1024 * 1024)]"
proof -
  have big: "file_size \<lparr>file_name = ''talk.mp4'', file_size = 200 * 1024 * 1024\<rparr>
      > MAX_FILE_SIZE_FREE"
    by (simp add: MAX_FILE_SIZE_FREE_def)
  have small: "file_size \<lparr>file_name = ''talk.mp4'', file_size = 200 * 1024 * 1024\<rparr>
      \<le> MAX_FILE_SIZE_PREMIUM"
    by (simp add: MAX_FILE_SIZE_PREMIUM_def)
  from onDrop_rejects_above_free_limit [OF big] big small show ?thesis
    by blast
qed

section \<open>Properties of job polling\<close>









section \<open>Properties of the jobs table\<close>

lemma first_violation_None: "first_violation cs = None \<longleftrightarrow> (\<forall>c\<in>set cs. \<not> fst c)"
  by (auto simp add: first_violation_def find_None_iff)

lemma jobs_violation_None:
  "jobs_violation db r = None \<longleftrightarrow>
     fits_varchar 50 (jobs_job_type r) \<and> fits_varchar 20 (jobs_status r)
   \<and> fits_varchar 255 (jobs_task_id r)
   \<and> fits_int4 (jobs_priority r) \<and> fits_int4 (jobs_progress r)
   \<and> fits_int4 (jobs_eta_seconds r) \<and> fits_int4 (jobs_retry_count r)
   \<and> fits_int4 (jobs_max_retries r)
   \<and> jobs_job_type r \<noteq> None
   \<and> (jobs_status r = None \<or> jobs_status r \<in> Some ` set jobs_status_values)
   \<and> references (jobs_user_id r) (users db) \<and> references (jobs_video_id r) (videos db)"
  by (auto simp add: jobs_violation_def first_violation_None violates_in_def
      split: option.splits)

lemma insert_jobs_Inr:
  "insert_jobs c db i s = Inr db' \<longleftrightarrow>
     jobs_violation db (jobs_assign jobs_defaults s) = None
   \<and> uid_is c (jobs_user_id (jobs_assign jobs_defaults s))
   \<and> i \<notin> dom (jobs db)
   \<and> db' = db\<lparr>jobs := (jobs db)(i \<mapsto> jobs_assign jobs_defaults s)\<rparr>"
  by (auto simp add: insert_jobs_def Let_def split: option.splits)

lemma update_jobs_Inr:
  "update_jobs c db j s = Inr db' \<longleftrightarrow>
     (case jobs db j of
        None \<Rightarrow> db' = db
      | Some old \<Rightarrow>
          if uid_is c (jobs_user_id old)
          then jobs_violation db (jobs_assign old s) = None
             \<and> uid_is c (jobs_user_id (jobs_assign old s))
             \<and> db' = db\<lparr>jobs := (jobs db)(j \<mapsto> jobs_assign old s)\<rparr>
          else db' = db)"
  by (auto simp add: update_jobs_def Let_def split: option.splits)

lemma varchar_fits: "fits_varchar n v \<Longrightarrow> varchar n v = v"
  by (cases v) (simp_all add: fits_varchar_def varchar_def)

lemmas sql_eval = insert_jobs_def update_jobs_def jobs_assign_def jobs_defaults_def no_change_def
  example_db_def example_job_def example_stmt_def jobs_violation_def first_violation_def
  fits_varchar_def varchar_def fits_int4_def references_def uid_is_def jobs_status_values_def
  violates_in_def row_after_def

lemma update_jobs_one_column:
  assumes row: "jobs db j = Some old" and vis: "uid_is c (jobs_user_id old)"
    and ok: "jobs_violation db old = None"
    and new: "jobs_assign old s = r" "jobs_violation db r = None"
      "jobs_user_id r = jobs_user_id old"
  shows "update_jobs c db j s = Inr (db\<lparr>jobs := (jobs db)(j \<mapsto> r)\<rparr>)"
  using assms by (simp add: update_jobs_def)

lemma jobs_assign_status:
  assumes "jobs_violation db old = None" "v \<in> set jobs_status_values"
  shows "jobs_assign old (no_change\<lparr>set_status := Given (Some v)\<rparr>) = old\<lparr>jobs_status := Some v\<rparr>"
proof -
  from assms(1) have "fits_varchar 50 (jobs_job_type old)" "fits_varchar 255 (jobs_task_id old)"
    by (simp_all add: jobs_violation_None)
  moreover from assms(2) have "fits_varchar 20 (Some v)"
    by (auto simp add: jobs_status_values_def fits_varchar_def)
  ultimately show ?thesis
    by (simp add: jobs_assign_def no_change_def varchar_fits)
qed

lemma update_jobs_status:
  assumes "jobs db j = Some old" "uid_is c (jobs_user_id old)" "jobs_violation db old = None"
    "v \<in> set jobs_status_values"
  shows "update_jobs c db j (no_change\<lparr>set_status := Given (Some v)\<rparr>)
     = Inr (db\<lparr>jobs := (jobs db)(j \<mapsto> old\<lparr>jobs_status := Some v\<rparr>)\<rparr>)"
proof (rule update_jobs_one_column [OF assms(1-3)])
  show "jobs_assign old (no_change\<lparr>set_status := Given (Some v)\<rparr>) = old\<lparr>jobs_status := Some v\<rparr>"
    using assms(3,4) by (rule jobs_assign_status)
  from assms(4) have "fits_varchar 20 (Some v)"
    by (auto simp add: jobs_status_values_def fits_varchar_def)
  with assms(3,4) show "jobs_violation db (old\<lparr>jobs_status := Some v\<rparr>) = None"
    by (simp add: jobs_violation_None)
  show "jobs_user_id (old\<lparr>jobs_status := Some v\<rparr>) = jobs_user_id old" by simp
qed

lemma insert_jobs_status_admitted:
  assumes "status_admitted db" "insert_jobs c db i s = Inr db'"
  shows "status_admitted db'"
  using assms
  by (auto simp add: insert_jobs_Inr jobs_violation_None status_admitted_def)

lemma update_jobs_status_admitted:
  assumes "status_admitted db" "update_jobs c db j s = Inr db'"
  shows "status_admitted db'"
  using assms
  by (auto simp add: update_jobs_Inr jobs_violation_None status_admitted_def
      split: option.splits if_splits)

lemma insert_jobs_default_status:
  assumes "insert_jobs c db i s = Inr db'" "set_status s = Omitted"
  shows "map_option jobs_status (jobs db' i) = Some (Some ''pending'')"
  using assms
  by (simp add: insert_jobs_Inr jobs_assign_def jobs_defaults_def varchar_def)

text \<open>
  Claim C1, as amended. In the \<open>jobs\<close> table of shared/schemas/database.sql a stored status
  is \<open>NULL\<close> or one of pending, running, completed, failed, cancelled: every accepted
  \<open>INSERT\<close> and \<open>UPDATE\<close> keeps it so, and an \<open>INSERT\<close> that leaves the status out
  stores pending. The table restricts no transition: an update of a Job the caller owns to
  any of the five values is accepted whatever the stored status, retry count and progress.
  The shared \<open>JobStatus\<close> type lists the same five values; the enum \<open>job_status\<close> of the
  first schema and the frontend enum \<open>JobStatus\<close> list pending, processing, completed, failed.
\<close>

theorem jobs_status_null_or_admitted:
  assumes "status_admitted db"
  shows "(insert_jobs c db i s = Inr db' \<longrightarrow> status_admitted db'
          \<and> (set_status s = Omitted \<longrightarrow>
               map_option jobs_status (jobs db' i) = Some (Some ''pending'')))
    \<and> (update_jobs c db j s = Inr db'' \<longrightarrow> status_admitted db'')
    \<and> (jobs db j = Some old \<and> uid_is c (jobs_user_id old) \<and> jobs_violation db old = None
         \<and> v \<in> set jobs_status_values \<longrightarrow>
         update_jobs c db j (no_change\<lparr>set_status := Given (Some v)\<rparr>)
           = Inr (db\<lparr>jobs := (jobs db)(j \<mapsto> old\<lparr>jobs_status := Some v\<rparr>)\<rparr>))
    \<and> set jobs_status_values
         = {''pending'', ''running'', ''completed'', ''failed'', ''cancelled''}
    \<and> set shared_JobStatus = set jobs_status_values
    \<and> set JobStatus = {''pending'', ''processing'', ''completed'', ''failed''}
    \<and> set job_status = set JobStatus"
proof (intro conjI impI)
  assume "insert_jobs c db i s = Inr db'"
  with assms show "status_admitted db'" by (rule insert_jobs_status_admitted)
next
  assume "insert_jobs c db i s = Inr db'" "set_status s = Omitted"
  then show "map_option jobs_status (jobs db' i) = Some (Some ''pending'')"
    by (rule insert_jobs_default_status)
next
  assume "update_jobs c db j s = Inr db''"
  with assms show "status_admitted db''" by (rule update_jobs_status_admitted)
next
  assume "jobs db j = Some old \<and> uid_is c (jobs_user_id old) \<and> jobs_violation db old = None
         \<and> v \<in> set jobs_status_values"
  then show "update_jobs c db j (no_change\<lparr>set_status := Given (Some v)\<rparr>)
           = Inr (db\<lparr>jobs := (jobs db)(j \<mapsto> old\<lparr>jobs_status := Some v\<rparr>)\<rparr>)"
    by (simp add: update_jobs_status)
qed (auto simp add: jobs_status_values_def shared_JobStatus_def JobStatus_def job_status_def)

text \<open>
  Claim C1 as stated fails: the status \<open>processing\<close> is a value of the frontend enum and of
  the first schema's enum and is none of the five states; and the \<open>jobs\<close> table accepts
  the update of a cancelled Job to running.
\<close>

theorem jobs_status_counterexample:
  "''processing'' \<in> set JobStatus \<and> ''processing'' \<in> set job_status
   \<and> ''processing'' \<notin> {''pending'', ''running'', ''completed'', ''failed'', ''cancelled''}
   \<and> map_option jobs_status
       (row_after (update_jobs (AuthUser ''u1'')
          (example_db\<lparr>jobs := [''j1'' \<mapsto> example_job\<lparr>jobs_status := Some ''cancelled''\<rparr>]\<rparr>)
          ''j1'' (no_change\<lparr>set_status := Given (Some ''running'')\<rparr>)) ''j1'')
     = Some (Some ''running'')"
  by (simp add: JobStatus_def job_status_def sql_eval)

text \<open>
  The theorem of claim C1 at a database with one user: an insert that leaves the status
  out stores pending, and a completed Job is set back to pending; the stored statuses stay
  among the five.
\<close>

theorem jobs_status_null_or_admitted_witness:
  "status_admitted example_db
   \<and> insert_jobs (AuthUser ''u1'') example_db ''j1'' example_stmt
       = Inr (example_db\<lparr>jobs := [''j1'' \<mapsto> example_job]\<rparr>)
   \<and> status_admitted (example_db\<lparr>jobs := [''j1'' \<mapsto> example_job]\<rparr>)
   \<and> jobs_status example_job = Some ''pending''
   \<and> update_jobs (AuthUser ''u1'')
        (example_db\<lparr>jobs := [''j1'' \<mapsto> example_job\<lparr>jobs_status := Some ''completed''\<rparr>]\<rparr>)
        ''j1'' (no_change\<lparr>set_status := Given (Some ''pending'')\<rparr>)
       = Inr (example_db\<lparr>jobs := [''j1'' \<mapsto> example_job\<lparr>jobs_status := Some ''pending''\<rparr>]\<rparr>)
   \<and> status_admitted
        (example_db\<lparr>jobs := [''j1'' \<mapsto> example_job\<lparr>jobs_status := Some ''pending''\<rparr>]\<rparr>)"
proof -
  let ?db1 = "example_db\<lparr>jobs := [''j1'' \<mapsto> example_job]\<rparr>"
  let ?db2 = "example_db\<lparr>jobs := [''j1'' \<mapsto> example_job\<lparr>jobs_status := Some ''completed''\<rparr>]\<rparr>"
  let ?db3 = "example_db\<lparr>jobs := [''j1'' \<mapsto> example_job\<lparr>jobs_status := Some ''pending''\<rparr>]\<rparr>"
  let ?s = "no_change\<lparr>set_status := Given (Some ''pending'')\<rparr>"
  have a: "status_admitted example_db"
    by (simp add: status_admitted_def example_db_def)
  have ins: "insert_jobs (AuthUser ''u1'') example_db ''j1'' example_stmt = Inr ?db1"
    by (simp add: sql_eval)
  have om: "set_status example_stmt = Omitted"
    by (simp add: example_stmt_def no_change_def)
  from jobs_status_null_or_admitted [OF a, where c = "AuthUser ''u1''" and i = "''j1''"
      and s = example_stmt and db' = ?db1] ins om
  have b: "status_admitted ?db1 \<and> map_option jobs_status (jobs ?db1 ''j1'') = Some (Some ''pending'')"
    by blast
  have c: "status_admitted ?db2"
    by (simp add: status_admitted_def example_job_def jobs_status_values_def)
  have d: "jobs ?db2 ''j1'' = Some (example_job\<lparr>jobs_status := Some ''completed''\<rparr>)
      \<and> uid_is (AuthUser ''u1'') (jobs_user_id (example_job\<lparr>jobs_status := Some ''completed''\<rparr>))
      \<and> jobs_violation ?db2 (example_job\<lparr>jobs_status := Some ''completed''\<rparr>) = None
      \<and> ''pending'' \<in> set jobs_status_values"
    by (simp add: sql_eval)
  from jobs_status_null_or_admitted [OF c, where c = "AuthUser ''u1''" and j = "''j1''"
      and old = "example_job\<lparr>jobs_status := Some ''completed''\<rparr>" and v = "''pending''"] d
  have "update_jobs (AuthUser ''u1'') ?db2 ''j1'' ?s
       = Inr (?db2\<lparr>jobs := (jobs ?db2)(''j1'' \<mapsto>
            example_job\<lparr>jobs_status := Some ''completed'', jobs_status := Some ''pending''\<rparr>)\<rparr>)"
    by blast
  then have u: "update_jobs (AuthUser ''u1'') ?db2 ''j1'' ?s = Inr ?db3" by simp
  from jobs_status_null_or_admitted [OF c, where c = "AuthUser ''u1''" and j = "''j1''"
      and s = ?s and db'' = ?db3] u
  have "status_admitted ?db3" by blast
  with a ins b u show ?thesis by simp
qed

lemma jobs_assign_progress:
  assumes "jobs_violation db old = None"
  shows "jobs_assign old (no_change\<lparr>set_progress := Given v\<rparr>) = old\<lparr>jobs_progress := v\<rparr>"
proof -
  from assms have "fits_varchar 50 (jobs_job_type old)" "fits_varchar 255 (jobs_task_id old)"
    "fits_varchar 20 (jobs_status old)"
    by (simp_all add: jobs_violation_None)
  then show ?thesis
    by (simp add: jobs_assign_def no_change_def varchar_fits)
qed

lemma update_jobs_progress:
  assumes "jobs db j = Some old" "uid_is c (jobs_user_id old)" "jobs_violation db old = None"
    "fits_int4 v"
  shows "update_jobs c db j (no_change\<lparr>set_progress := Given v\<rparr>)
     = Inr (db\<lparr>jobs := (jobs db)(j \<mapsto> old\<lparr>jobs_progress := v\<rparr>)\<rparr>)"
proof (rule update_jobs_one_column [OF assms(1-3)])
  show "jobs_assign old (no_change\<lparr>set_progress := Given v\<rparr>) = old\<lparr>jobs_progress := v\<rparr>"
    using assms(3) by (rule jobs_assign_progress)
  from assms(3,4) show "jobs_violation db (old\<lparr>jobs_progress := v\<rparr>) = None"
    by (simp add: jobs_violation_None)
  show "jobs_user_id (old\<lparr>jobs_progress := v\<rparr>) = jobs_user_id old" by simp
qed

text \<open>
  Claim C2, as amended. The \<open>jobs\<close> table stores the progress a statement gives, as it is:
  an \<open>INSERT\<close> stores the given value, or 0 when it gives none, and an \<open>UPDATE\<close> of a
  Job the caller owns stores any 32-bit integer, whatever the stored value. The table neither
  clamps a value to the range from 0 to 100 nor rejects a value lower than the stored one.
\<close>

theorem jobs_progress_stored_as_given:
  "(insert_jobs c db i s = Inr db' \<longrightarrow>
      map_option jobs_progress (jobs db' i) = Some (assign (Some 0) (set_progress s)))
   \<and> (jobs db j = Some old \<and> uid_is c (jobs_user_id old) \<and> jobs_violation db old = None
        \<and> - 2147483648 \<le> v \<and> v \<le> 2147483647 \<longrightarrow>
        update_jobs c db j (no_change\<lparr>set_progress := Given (Some v)\<rparr>)
          = Inr (db\<lparr>jobs := (jobs db)(j \<mapsto> old\<lparr>jobs_progress := Some v\<rparr>)\<rparr>))"
proof (intro conjI impI)
  assume "insert_jobs c db i s = Inr db'"
  then show "map_option jobs_progress (jobs db' i) = Some (assign (Some 0) (set_progress s))"
    by (simp add: insert_jobs_Inr jobs_assign_def jobs_defaults_def)
next
  assume "jobs db j = Some old \<and> uid_is c (jobs_user_id old) \<and> jobs_violation db old = None
        \<and> - 2147483648 \<le> v \<and> v \<le> 2147483647"
  then show "update_jobs c db j (no_change\<lparr>set_progress := Given (Some v)\<rparr>)
          = Inr (db\<lparr>jobs := (jobs db)(j \<mapsto> old\<lparr>jobs_progress := Some v\<rparr>)\<rparr>)"
    by (simp add: update_jobs_progress fits_int4_def)
qed

text \<open>
  Claim C2 as stated fails: an insert with progress 150 is accepted and stores 150, outside
  the range; an update of a running Job from 50 to 10 is accepted and stores 10.
\<close>

theorem jobs_progress_counterexample:
  "map_option jobs_progress
     (row_after (insert_jobs (AuthUser ''u1'') example_db ''j1''
        (example_stmt\<lparr>set_status := Given (Some ''running''),
           set_progress := Given (Some 150)\<rparr>)) ''j1'') = Some (Some 150)
   \<and> \<not> progress_in_range (Some 150)
   \<and> map_option jobs_progress
     (row_after (update_jobs (AuthUser ''u1'')
        (example_db\<lparr>jobs := [''j1'' \<mapsto>
           example_job\<lparr>jobs_status := Some ''running'', jobs_progress := Some 50\<rparr>]\<rparr>)
        ''j1'' (no_change\<lparr>set_progress := Given (Some 10)\<rparr>)) ''j1'') = Some (Some 10)"
  by (simp add: sql_eval progress_in_range_def)

text \<open>
  The theorem of claim C2 at a concrete Job: the default is 0, and an update to -7 is stored.
\<close>

theorem jobs_progress_stored_as_given_witness:
  "insert_jobs (AuthUser ''u1'') example_db ''j1'' example_stmt
       = Inr (example_db\<lparr>jobs := [''j1'' \<mapsto> example_job]\<rparr>)
   \<and> jobs_progress example_job = Some 0
   \<and> update_jobs (AuthUser ''u1'') (example_db\<lparr>jobs := [''j1'' \<mapsto> example_job]\<rparr>) ''j1''
        (no_change\<lparr>set_progress := Given (Some (- 7))\<rparr>)
       = Inr (example_db\<lparr>jobs := [''j1'' \<mapsto> example_job\<lparr>jobs_progress := Some (- 7)\<rparr>]\<rparr>)"
proof -
  let ?db1 = "example_db\<lparr>jobs := [''j1'' \<mapsto> example_job]\<rparr>"
  have ins: "insert_jobs (AuthUser ''u1'') example_db ''j1'' example_stmt = Inr ?db1"
    by (simp add: sql_eval)
  have om: "set_progress example_stmt = Omitted"
    by (simp add: example_stmt_def no_change_def)
  from jobs_progress_stored_as_given [where c = "AuthUser ''u1''" and db = example_db
      and i = "''j1''" and s = example_stmt and db' = ?db1] ins om
  have b: "map_option jobs_progress (jobs ?db1 ''j1'') = Some (Some 0)"
    by simp
  have d: "jobs ?db1 ''j1'' = Some example_job
      \<and> uid_is (AuthUser ''u1'') (jobs_user_id example_job)
      \<and> jobs_violation ?db1 example_job = None
      \<and> - 2147483648 \<le> (- 7 :: int) \<and> (- 7 :: int) \<le> 2147483647"
    by (simp add: sql_eval)
  from jobs_progress_stored_as_given [where c = "AuthUser ''u1''" and db = ?db1
      and j = "''j1''" and old = example_job and v = "- 7"] d
  have "update_jobs (AuthUser ''u1'') ?db1 ''j1'' (no_change\<lparr>set_progress := Given (Some (- 7))\<rparr>)
       = Inr (?db1\<lparr>jobs := (jobs ?db1)(''j1'' \<mapsto> example_job\<lparr>jobs_progress := Some (- 7)\<rparr>)\<rparr>)"
    by blast
  with ins b show ?thesis by simp
qed

lemma jobs_violation_error_message [simp]:
  "jobs_violation db (r\<lparr>jobs_error_message := m\<rparr>) = jobs_violation db r"
  by (simp add: jobs_violation_def)








section \<open>Properties of the clips table\<close>

















section \<open>Properties of the highlights table\<close>






section \<open>Properties of the Highlight Scorer\<close>



















end
